theory Spec2Isabelle
  imports Main
begin

section \<open>Python values\<close>

text \<open>
  A Python \<^verbatim>\<open>str\<close> is a sequence of Unicode code points, so \<^verbatim>\<open>len\<close> counts code
  points and the pound sign is one character. HOL's \<open>char\<close> has eight bits, so text is
  modelled as a list of code points; \<open>ustr\<close> reads an ASCII literal of the source.
\<close>

type_synonym ustring = "nat list"

definition ustr :: "string \<Rightarrow> ustring" where
  "ustr s = map of_char s"

text \<open>The exceptions the modelled code can meet.\<close>

datatype py_error = AttributeError | IndexError | ValueError | OSError | RequestException

text \<open>
  \<^verbatim>\<open>str.strip()\<close> with no argument removes leading and trailing whitespace, which for a
  \<^verbatim>\<open>str\<close> is the set of code points for which \<^verbatim>\<open>str.isspace\<close> holds.
\<close>

definition py_isspace :: "nat \<Rightarrow> bool" where
  "py_isspace c \<longleftrightarrow>
     (9 \<le> c \<and> c \<le> 13) \<or> (28 \<le> c \<and> c \<le> 32) \<or> c = 133 \<or> c = 160 \<or> c = 5760 \<or>
     (8192 \<le> c \<and> c \<le> 8202) \<or> c = 8232 \<or> c = 8233 \<or> c = 8239 \<or> c = 8287 \<or> c = 12288"

definition strip :: "ustring \<Rightarrow> ustring" where
  "strip s = rev (dropWhile py_isspace (rev (dropWhile py_isspace s)))"

text \<open>
  A \<^verbatim>\<open>dict\<close> with string keys and values keeps its keys in insertion order: an
  association list with distinct keys. \<open>dict_set d k v\<close> is \<^verbatim>\<open>d[k] = v\<close>.
\<close>

type_synonym pydict = "(ustring \<times> ustring) list"

fun dict_set :: "pydict \<Rightarrow> ustring \<Rightarrow> ustring \<Rightarrow> pydict" where
  "dict_set [] k v = [(k, v)]"
| "dict_set ((k', v') # d) k v = (if k' = k then (k, v) # d else (k', v') # dict_set d k v)"

definition dict_has :: "pydict \<Rightarrow> ustring \<Rightarrow> bool" where
  "dict_has d k \<longleftrightarrow> k \<in> fst ` set d"

section \<open>The parsed document (bs4)\<close>

text \<open>
  \<^verbatim>\<open>BeautifulSoup(html_content, 'html.parser')\<close> is a library call: the functions of
  \<^verbatim>\<open>parser.py\<close> take it as the parameter \<open>BeautifulSoup\<close>, from the markup to the root of
  the tree it builds. A tag has a name, the list of its classes (bs4 keeps the
  \<^verbatim>\<open>class\<close> attribute as a list), its other attributes and its contents. \<open>Comment\<close>
  stands for the strings that \<^verbatim>\<open>.text\<close> leaves out (comments, declarations).
\<close>

datatype node =
    Tag ustring "ustring list" "(ustring \<times> ustring) list" "node list"
  | NavigableString ustring
  | Comment ustring

text \<open>The descendants of a tag in document order, as \<^verbatim>\<open>Tag.descendants\<close> yields them.\<close>

fun descendants :: "node \<Rightarrow> node list" where
  "descendants (Tag n cl at ch) = concat (map (\<lambda>c. c # descendants c) ch)"
| "descendants (NavigableString s) = []"
| "descendants (Comment s) = []"

text \<open>
  \<^verbatim>\<open>find_all(name, class_=c)\<close> keeps the descendant tags of that name that have \<open>c\<close>
  among their classes; \<^verbatim>\<open>find\<close> is the first of them or \<^verbatim>\<open>None\<close>.
\<close>

fun matches :: "ustring \<Rightarrow> ustring option \<Rightarrow> node \<Rightarrow> bool" where
  "matches nm cls (Tag n cl at ch) =
     (n = nm \<and> (case cls of None \<Rightarrow> True | Some c \<Rightarrow> c \<in> set cl))"
| "matches nm cls (NavigableString s) = False"
| "matches nm cls (Comment s) = False"

definition find_all :: "ustring \<Rightarrow> ustring option \<Rightarrow> node \<Rightarrow> node list" where
  "find_all nm cls t = filter (matches nm cls) (descendants t)"

definition find_tag :: "ustring \<Rightarrow> ustring option \<Rightarrow> node \<Rightarrow> node option" where
  "find_tag nm cls t = (case find_all nm cls t of [] \<Rightarrow> None | x # _ \<Rightarrow> Some x)"

text \<open>\<^verbatim>\<open>tag.get(key, default)\<close> on the attributes, and \<^verbatim>\<open>tag.text\<close>.\<close>

fun tag_get :: "node \<Rightarrow> ustring \<Rightarrow> ustring \<Rightarrow> ustring" where
  "tag_get (Tag n cl at ch) key dflt = (case map_of at key of Some v \<Rightarrow> v | None \<Rightarrow> dflt)"
| "tag_get (NavigableString s) key dflt = dflt"
| "tag_get (Comment s) key dflt = dflt"

fun get_text :: "node \<Rightarrow> ustring" where
  "get_text (Tag n cl at ch) = concat (map get_text ch)"
| "get_text (NavigableString s) = s"
| "get_text (Comment s) = []"

section \<open>parser.py\<close>

text \<open>
  The body of the loop of \<^verbatim>\<open>parse_books_from_html\<close> up to the membership test:
  \<^verbatim>\<open>book.find('h3')\<close> is \<^verbatim>\<open>None\<close> when the container has no \<^verbatim>\<open>h3\<close>, and
  \<^verbatim>\<open>None.find('a')\<close> raises \<^verbatim>\<open>AttributeError\<close>. A tag is always true in a
  condition, so \<^verbatim>\<open>if title_element:\<close> tests for \<^verbatim>\<open>None\<close>.
\<close>

definition parse_book :: "node \<Rightarrow> py_error + pydict" where
  "parse_book book =
     (case find_tag (ustr ''h3'') None book of
        None \<Rightarrow> Inl AttributeError
      | Some h3 \<Rightarrow>
          (let book_info = [];
               title_element = find_tag (ustr ''a'') None h3;
               book_info = (case title_element of
                              Some a \<Rightarrow> dict_set book_info (ustr ''Title'')
                                          (strip (tag_get a (ustr ''title'') []))
                            | None \<Rightarrow> book_info);
               price_element = find_tag (ustr ''p'') (Some (ustr ''price_color'')) book;
               book_info = (case price_element of
                              Some p \<Rightarrow> dict_set book_info (ustr ''Price'') (strip (get_text p))
                            | None \<Rightarrow> book_info)
           in Inr book_info))"

fun parse_books_loop :: "node list \<Rightarrow> pydict list \<Rightarrow> py_error + pydict list" where
  "parse_books_loop [] books = Inr books"
| "parse_books_loop (book # rest) books =
     (case parse_book book of
        Inl e \<Rightarrow> Inl e
      | Inr book_info \<Rightarrow>
          if dict_has book_info (ustr ''Title'') \<and> dict_has book_info (ustr ''Price'')
          then parse_books_loop rest (books @ [book_info])
          else parse_books_loop rest books)"

definition parse_books_from_html :: "(ustring \<Rightarrow> node) \<Rightarrow> ustring \<Rightarrow> py_error + pydict list" where
  "parse_books_from_html BeautifulSoup html_content =
     (if html_content = [] then Inr []
      else parse_books_loop
             (find_all (ustr ''article'') (Some (ustr ''product_pod'')) (BeautifulSoup html_content))
             [])"

text \<open>\<^verbatim>\<open>get_book_urls\<close>: the same scan, reading the link's \<^verbatim>\<open>href\<close>.\<close>

fun get_book_urls_loop :: "node list \<Rightarrow> ustring list \<Rightarrow> py_error + ustring list" where
  "get_book_urls_loop [] urls = Inr urls"
| "get_book_urls_loop (book # rest) urls =
     (case find_tag (ustr ''h3'') None book of
        None \<Rightarrow> Inl AttributeError
      | Some h3 \<Rightarrow>
          (case find_tag (ustr ''a'') None h3 of
             None \<Rightarrow> get_book_urls_loop rest urls
           | Some link_element \<Rightarrow>
               (let href = tag_get link_element (ustr ''href'') []
                in if href \<noteq> [] then get_book_urls_loop rest (urls @ [href])
                   else get_book_urls_loop rest urls)))"

definition get_book_urls :: "(ustring \<Rightarrow> node) \<Rightarrow> ustring \<Rightarrow> py_error + ustring list" where
  "get_book_urls BeautifulSoup html_content =
     (if html_content = [] then Inr []
      else get_book_urls_loop
             (find_all (ustr ''article'') (Some (ustr ''product_pod'')) (BeautifulSoup html_content))
             [])"

subsection \<open>What one container contributes\<close>

text \<open>
  The link and the price element the loop body looks up in a container, whether the
  container has an \<^verbatim>\<open>h3\<close> at all, and the record the body builds when both
  elements are there.
\<close>

definition title_link :: "node \<Rightarrow> node option" where
  "title_link book =
     (case find_tag (ustr ''h3'') None book of
        None \<Rightarrow> None
      | Some h3 \<Rightarrow> find_tag (ustr ''a'') None h3)"

definition price_tag :: "node \<Rightarrow> node option" where
  "price_tag book = find_tag (ustr ''p'') (Some (ustr ''price_color'')) book"

definition has_h3 :: "node \<Rightarrow> bool" where
  "has_h3 book \<longleftrightarrow> find_tag (ustr ''h3'') None book \<noteq> None"

definition book_record :: "node \<Rightarrow> pydict option" where
  "book_record book =
     (case title_link book of
        None \<Rightarrow> None
      | Some a \<Rightarrow>
          (case price_tag book of
             None \<Rightarrow> None
           | Some p \<Rightarrow>
               Some [(ustr ''Title'', strip (tag_get a (ustr ''title'') [])),
                     (ustr ''Price'', strip (get_text p))]))"

definition containers :: "node \<Rightarrow> node list" where
  "containers soup = find_all (ustr ''article'') (Some (ustr ''product_pod'')) soup"

text \<open>
  A well-formed container in the words of the specification: the nested link carries a
  \<^verbatim>\<open>title\<close> attribute, and there is a price element.
\<close>

fun has_attr :: "node \<Rightarrow> ustring \<Rightarrow> bool" where
  "has_attr (Tag n cl at ch) key = (map_of at key \<noteq> None)"
| "has_attr (NavigableString s) key = False"
| "has_attr (Comment s) key = False"

definition well_formed :: "node \<Rightarrow> bool" where
  "well_formed book \<longleftrightarrow>
     (case title_link book of None \<Rightarrow> False | Some a \<Rightarrow> has_attr a (ustr ''title''))
     \<and> price_tag book \<noteq> None"

subsection \<open>Sample markup\<close>

text \<open>
  Three small documents, each with the tree \<^verbatim>\<open>html.parser\<close> builds from it (the root
  is the \<^verbatim>\<open>BeautifulSoup\<close> object, named \<^verbatim>\<open>[document]\<close>). Code point 163 is the
  pound sign. In \<open>untitled\<close> the link has no \<^verbatim>\<open>title\<close> attribute; in \<open>headless\<close>
  the container has no \<^verbatim>\<open>h3\<close>; in \<open>shelf\<close> the second of three containers has no
  price element.
\<close>

definition untitled_markup :: ustring where
  "untitled_markup =
     ustr ''<article class=product_pod><h3><a href=x>T</a></h3><p class=price_color>''
     @ [163] @ ustr ''5</p></article>''"

definition untitled_soup :: node where
  "untitled_soup =
     Tag (ustr ''[document]'') [] []
       [Tag (ustr ''article'') [ustr ''product_pod''] []
          [Tag (ustr ''h3'') [] []
             [Tag (ustr ''a'') [] [(ustr ''href'', ustr ''x'')] [NavigableString (ustr ''T'')]],
           Tag (ustr ''p'') [ustr ''price_color''] [] [NavigableString [163, 53]]]]"

definition headless_markup :: ustring where
  "headless_markup =
     ustr ''<article class=product_pod><a href=x title=T>T</a><p class=price_color>''
     @ [163] @ ustr ''5</p></article>''"

definition headless_soup :: node where
  "headless_soup =
     Tag (ustr ''[document]'') [] []
       [Tag (ustr ''article'') [ustr ''product_pod''] []
          [Tag (ustr ''a'') [] [(ustr ''href'', ustr ''x''), (ustr ''title'', ustr ''T'')]
             [NavigableString (ustr ''T'')],
           Tag (ustr ''p'') [ustr ''price_color''] [] [NavigableString [163, 53]]]]"

definition shelf_markup :: ustring where
  "shelf_markup =
     ustr ''<article class=product_pod><h3><a title=A>A</a></h3><p class=price_color>''
     @ [163] @ ustr ''1</p></article>''
     @ ustr ''<article class=product_pod><h3><a title=M>M</a></h3></article>''
     @ ustr ''<article class=product_pod><h3><a title=B>B</a></h3><p class=price_color>''
     @ [163] @ ustr ''2</p></article>''"

definition shelf_soup :: node where
  "shelf_soup =
     Tag (ustr ''[document]'') [] []
       [Tag (ustr ''article'') [ustr ''product_pod''] []
          [Tag (ustr ''h3'') [] []
             [Tag (ustr ''a'') [] [(ustr ''title'', ustr ''A'')] [NavigableString (ustr ''A'')]],
           Tag (ustr ''p'') [ustr ''price_color''] [] [NavigableString [163, 49]]],
        Tag (ustr ''article'') [ustr ''product_pod''] []
          [Tag (ustr ''h3'') [] []
             [Tag (ustr ''a'') [] [(ustr ''title'', ustr ''M'')] [NavigableString (ustr ''M'')]]],
        Tag (ustr ''article'') [ustr ''product_pod''] []
          [Tag (ustr ''h3'') [] []
             [Tag (ustr ''a'') [] [(ustr ''title'', ustr ''B'')] [NavigableString (ustr ''B'')]],
           Tag (ustr ''p'') [ustr ''price_color''] [] [NavigableString [163, 50]]]]"

section \<open>Python string operations\<close>

text \<open>
  \<^verbatim>\<open>s.startswith(p)\<close>, \<^verbatim>\<open>x in s\<close> (substring search), \<^verbatim>\<open>s.split(sep)\<close>, which raises
  \<^verbatim>\<open>ValueError\<close> on an empty separator, and \<^verbatim>\<open>xs[i]\<close> for \<open>i \<ge> 0\<close>, which raises
  \<^verbatim>\<open>IndexError\<close> out of range.
\<close>

fun startswith :: "ustring \<Rightarrow> ustring \<Rightarrow> bool" where
  "startswith s [] = True"
| "startswith [] (p # ps) = False"
| "startswith (c # cs) (p # ps) = (c = p \<and> startswith cs ps)"

fun py_in :: "ustring \<Rightarrow> ustring \<Rightarrow> bool" where
  "py_in x [] = (x = [])"
| "py_in x (c # cs) = (startswith (c # cs) x \<or> py_in x cs)"

function split_scan :: "ustring \<Rightarrow> ustring \<Rightarrow> ustring \<Rightarrow> ustring list" where
  "split_scan sep piece [] = [piece]"
| "split_scan sep piece (c # cs) =
     (if sep \<noteq> [] \<and> startswith (c # cs) sep
      then piece # split_scan sep [] (drop (length sep) (c # cs))
      else split_scan sep (piece @ [c]) cs)"
  by pat_completeness auto
termination
  by (relation "measure (\<lambda>(sep, piece, s). length s)") (auto simp: neq_Nil_conv)

definition py_split :: "ustring \<Rightarrow> ustring \<Rightarrow> py_error + ustring list" where
  "py_split s sep = (if sep = [] then Inl ValueError else Inr (split_scan sep [] s))"

definition subscript :: "'a list \<Rightarrow> nat \<Rightarrow> py_error + 'a" where
  "subscript xs i = (if i < length xs then Inr (xs ! i) else Inl IndexError)"

text \<open>
  \<^verbatim>\<open>str.lower()\<close> follows the Unicode case mapping, which is part of Python and not of
  this repository: the functions that call it take it as the parameter \<open>lower\<close>.
  \<open>ascii_lower\<close> is \<^verbatim>\<open>str.lower\<close> on text whose cased characters are all ASCII, as
  in the sample pages below.
\<close>

definition ascii_lower :: "ustring \<Rightarrow> ustring" where
  "ascii_lower s = map (\<lambda>c. if 65 \<le> c \<and> c \<le> 90 then c + 32 else c) s"

section \<open>main.py\<close>

subsection \<open>is_page_not_found\<close>

definition not_found_indicators :: "ustring list" where
  "not_found_indicators =
     [ustr ''page not found'', ustr ''404 not found'', ustr ''error 404'',
      ustr ''sorry, no results found'', ustr ''no results found'']"

text \<open>The loop over the indicators, returning at the first that occurs.\<close>

fun any_indicator :: "ustring list \<Rightarrow> ustring \<Rightarrow> bool" where
  "any_indicator [] content_lower = False"
| "any_indicator (indicator # rest) content_lower =
     (if py_in indicator content_lower then True else any_indicator rest content_lower)"

text \<open>
  The argument is \<^verbatim>\<open>None\<close> or a string; \<^verbatim>\<open>not html_content\<close> holds for \<^verbatim>\<open>None\<close> and
  for the empty string.
\<close>

definition is_page_not_found :: "(ustring \<Rightarrow> ustring) \<Rightarrow> ustring option \<Rightarrow> py_error + bool" where
  "is_page_not_found lower html_content =
     (case html_content of
        None \<Rightarrow> Inr True
      | Some html \<Rightarrow>
          if html = [] then Inr True
          else
            (let content_lower = lower html in
             if any_indicator not_found_indicators content_lower then Inr True
             else if length (strip html) < 500 then Inr True
             else if py_in (ustr ''<title>'') content_lower then
               (case py_split content_lower (ustr ''<title>'') of
                  Inl e \<Rightarrow> Inl e
                | Inr parts \<Rightarrow>
                    (case subscript parts 1 of
                       Inl e \<Rightarrow> Inl e
                     | Inr after_title \<Rightarrow>
                         (case py_split after_title (ustr ''</title>'') of
                            Inl e \<Rightarrow> Inl e
                          | Inr pieces \<Rightarrow>
                              (case subscript pieces 0 of
                                 Inl e \<Rightarrow> Inl e
                               | Inr title \<Rightarrow>
                                   if py_in (ustr ''404'') title then Inr True else Inr False))))
             else Inr False))"

text \<open>
  The text the last test reads, said without \<^verbatim>\<open>split\<close>: what follows the first
  occurrence of a separator, and what precedes it (everything, when it does not occur).
\<close>

fun before_first :: "ustring \<Rightarrow> ustring \<Rightarrow> ustring" where
  "before_first sep [] = []"
| "before_first sep (c # cs) = (if startswith (c # cs) sep then [] else c # before_first sep cs)"

fun after_first :: "ustring \<Rightarrow> ustring \<Rightarrow> ustring" where
  "after_first sep [] = []"
| "after_first sep (c # cs) =
     (if startswith (c # cs) sep then drop (length sep) (c # cs) else after_first sep cs)"

definition title_text :: "ustring \<Rightarrow> ustring" where
  "title_text content_lower =
     before_first (ustr ''</title>'')
       (before_first (ustr ''<title>'') (after_first (ustr ''<title>'') content_lower))"

subsection \<open>The crawl\<close>

text \<open>
  The crawl functions reach the network only through \<^verbatim>\<open>fetch_books_page(page)\<close>, which
  returns the markup of a page or \<^verbatim>\<open>None\<close>: they take it as the parameter
  \<open>fetch_books_page\<close>, a simulated catalog. Each returns its result, or the exception
  that ended it, together with the page indices it fetched, in order. Console output
  and the delay between requests are left out.
\<close>

definition scrape_single_page ::
  "(ustring \<Rightarrow> node) \<Rightarrow> (int \<Rightarrow> ustring option) \<Rightarrow> int \<Rightarrow> py_error + pydict list" where
  "scrape_single_page BeautifulSoup fetch_books_page page_number =
     (case fetch_books_page page_number of
        None \<Rightarrow> Inr []
      | Some html_content \<Rightarrow>
          if html_content = [] then Inr []
          else parse_books_from_html BeautifulSoup html_content)"

fun scrape_pages_loop ::
  "(ustring \<Rightarrow> node) \<Rightarrow> (int \<Rightarrow> ustring option) \<Rightarrow> int list \<Rightarrow> pydict list \<Rightarrow> int list
     \<Rightarrow> (py_error + pydict list) \<times> int list" where
  "scrape_pages_loop BeautifulSoup fetch_books_page [] all_books fetched =
     (Inr all_books, fetched)"
| "scrape_pages_loop BeautifulSoup fetch_books_page (page # rest) all_books fetched =
     (case scrape_single_page BeautifulSoup fetch_books_page page of
        Inl e \<Rightarrow> (Inl e, fetched @ [page])
      | Inr books \<Rightarrow>
          if books \<noteq> []
          then scrape_pages_loop BeautifulSoup fetch_books_page rest (all_books @ books)
                 (fetched @ [page])
          else (Inr all_books, fetched @ [page]))"

text \<open>\<^verbatim>\<open>range(start_page, start_page + num_pages)\<close> is the list \<open>[start_page..start_page + num_pages - 1]\<close>.\<close>

definition scrape_multiple_pages ::
  "(ustring \<Rightarrow> node) \<Rightarrow> (int \<Rightarrow> ustring option) \<Rightarrow> int \<Rightarrow> int
     \<Rightarrow> (py_error + pydict list) \<times> int list" where
  "scrape_multiple_pages BeautifulSoup fetch_books_page start_page num_pages =
     scrape_pages_loop BeautifulSoup fetch_books_page
       [start_page..start_page + num_pages - 1] [] []"

text \<open>
  \<^verbatim>\<open>scrape_all_pages\<close> loops with \<^verbatim>\<open>while True\<close>: the loop is a partial function, and
  \<open>None\<close> is a crawl that never ends.
\<close>

partial_function (option) scrape_all_loop ::
  "(ustring \<Rightarrow> ustring) \<Rightarrow> (ustring \<Rightarrow> node) \<Rightarrow> (int \<Rightarrow> ustring option) \<Rightarrow> int
     \<Rightarrow> pydict list \<Rightarrow> int list \<Rightarrow> ((py_error + pydict list) \<times> int list) option" where
  "scrape_all_loop lower BeautifulSoup fetch_books_page page all_books fetched =
     (case fetch_books_page page of
        None \<Rightarrow> Some (Inr all_books, fetched @ [page])
      | Some html_content \<Rightarrow>
          if html_content = [] then Some (Inr all_books, fetched @ [page])
          else
            (case is_page_not_found lower (Some html_content) of
               Inl e \<Rightarrow> Some (Inl e, fetched @ [page])
             | Inr not_found \<Rightarrow>
                 if not_found then Some (Inr all_books, fetched @ [page])
                 else
                   (case parse_books_from_html BeautifulSoup html_content of
                      Inl e \<Rightarrow> Some (Inl e, fetched @ [page])
                    | Inr books \<Rightarrow>
                        if books = [] then Some (Inr all_books, fetched @ [page])
                        else scrape_all_loop lower BeautifulSoup fetch_books_page (page + 1)
                               (all_books @ books) (fetched @ [page]))))"

definition scrape_all_pages ::
  "(ustring \<Rightarrow> ustring) \<Rightarrow> (ustring \<Rightarrow> node) \<Rightarrow> (int \<Rightarrow> ustring option) \<Rightarrow> int
     \<Rightarrow> ((py_error + pydict list) \<times> int list) option" where
  "scrape_all_pages lower BeautifulSoup fetch_books_page start_page =
     scrape_all_loop lower BeautifulSoup fetch_books_page start_page [] []"

subsection \<open>Sample pages\<close>

text \<open>
  \<open>lost\<close> is a page with one well-formed container whose link text is a "not found"
  phrase. \<open>page_one\<close> and \<open>page_two\<close> are catalog pages with one book each, followed by
  500 characters \<^verbatim>\<open>x\<close> of text, and \<open>stub\<close> is an error page; \<open>sample_catalog\<close>
  serves them as pages 1, 2 and 3 (and \<open>stub\<close> beyond), and \<open>sample_soup\<close> is the parser
  on them.
\<close>

definition lost_markup :: ustring where
  "lost_markup =
     ustr ''<article class=product_pod><h3><a title=Lost>Page Not Found</a></h3><p class=price_color>''
     @ [163] @ ustr ''5</p></article>''"

definition lost_soup :: node where
  "lost_soup =
     Tag (ustr ''[document]'') [] []
       [Tag (ustr ''article'') [ustr ''product_pod''] []
          [Tag (ustr ''h3'') [] []
             [Tag (ustr ''a'') [] [(ustr ''title'', ustr ''Lost'')]
                [NavigableString (ustr ''Page Not Found'')]],
           Tag (ustr ''p'') [ustr ''price_color''] [] [NavigableString [163, 53]]]]"

definition page_one :: ustring where
  "page_one =
     ustr ''<article class=product_pod><h3><a title=A>A</a></h3><p class=price_color>''
     @ [163] @ ustr ''1</p></article>'' @ replicate 500 120"

definition soup_one :: node where
  "soup_one =
     Tag (ustr ''[document]'') [] []
       [Tag (ustr ''article'') [ustr ''product_pod''] []
          [Tag (ustr ''h3'') [] []
             [Tag (ustr ''a'') [] [(ustr ''title'', ustr ''A'')] [NavigableString (ustr ''A'')]],
           Tag (ustr ''p'') [ustr ''price_color''] [] [NavigableString [163, 49]]],
        NavigableString (replicate 500 120)]"

definition page_two :: ustring where
  "page_two =
     ustr ''<article class=product_pod><h3><a title=B>B</a></h3><p class=price_color>''
     @ [163] @ ustr ''2</p></article>'' @ replicate 500 120"

definition soup_two :: node where
  "soup_two =
     Tag (ustr ''[document]'') [] []
       [Tag (ustr ''article'') [ustr ''product_pod''] []
          [Tag (ustr ''h3'') [] []
             [Tag (ustr ''a'') [] [(ustr ''title'', ustr ''B'')] [NavigableString (ustr ''B'')]],
           Tag (ustr ''p'') [ustr ''price_color''] [] [NavigableString [163, 50]]],
        NavigableString (replicate 500 120)]"

definition stub :: ustring where
  "stub = ustr ''404 Not Found''"

definition sample_catalog :: "int \<Rightarrow> ustring option" where
  "sample_catalog page =
     (if page = 1 then Some page_one else if page = 2 then Some page_two else Some stub)"

definition sample_soup :: "ustring \<Rightarrow> node" where
  "sample_soup html_content =
     (if html_content = page_one then soup_one
      else if html_content = page_two then soup_two
      else Tag (ustr ''[document]'') [] [] [NavigableString html_content])"

subsection \<open>Pages of a catalog\<close>

text \<open>
  What the crawl sees of page \<open>p\<close>. A catalog page is fetched, is not classified as
  "not found" and yields at least one record; a "not found" page is fetched and
  classified so. \<open>page_books\<close> are the records \<^verbatim>\<open>scrape_single_page\<close> returns for the
  page, and \<open>page_yields\<close> says that there is at least one.
\<close>

definition catalog_page ::
  "(ustring \<Rightarrow> ustring) \<Rightarrow> (ustring \<Rightarrow> node) \<Rightarrow> (int \<Rightarrow> ustring option) \<Rightarrow> int \<Rightarrow> bool" where
  "catalog_page lower BeautifulSoup fetch_books_page p \<longleftrightarrow>
     (case fetch_books_page p of
        None \<Rightarrow> False
      | Some html \<Rightarrow>
          html \<noteq> [] \<and> is_page_not_found lower (Some html) = Inr False
          \<and> (case parse_books_from_html BeautifulSoup html of
                Inl e \<Rightarrow> False
              | Inr books \<Rightarrow> books \<noteq> []))"

definition not_found_page ::
  "(ustring \<Rightarrow> ustring) \<Rightarrow> (int \<Rightarrow> ustring option) \<Rightarrow> int \<Rightarrow> bool" where
  "not_found_page lower fetch_books_page p \<longleftrightarrow>
     (case fetch_books_page p of
        None \<Rightarrow> False
      | Some html \<Rightarrow> html \<noteq> [] \<and> is_page_not_found lower (Some html) = Inr True)"

definition page_books ::
  "(ustring \<Rightarrow> node) \<Rightarrow> (int \<Rightarrow> ustring option) \<Rightarrow> int \<Rightarrow> pydict list" where
  "page_books BeautifulSoup fetch_books_page p =
     (case scrape_single_page BeautifulSoup fetch_books_page p of
        Inl e \<Rightarrow> []
      | Inr books \<Rightarrow> books)"

definition page_yields ::
  "(ustring \<Rightarrow> node) \<Rightarrow> (int \<Rightarrow> ustring option) \<Rightarrow> int \<Rightarrow> bool" where
  "page_yields BeautifulSoup fetch_books_page p \<longleftrightarrow>
     (case scrape_single_page BeautifulSoup fetch_books_page p of
        Inl e \<Rightarrow> False
      | Inr books \<Rightarrow> books \<noteq> [])"

section \<open>fetcher.py\<close>

text \<open>
  \<^verbatim>\<open>requests.get\<close> is the network: the parameter \<open>get\<close> gives, for a URL, a timeout and
  the number of the attempt (from 0), the response or the exception raised.
  \<open>RequestException\<close> stands for that class and its subclasses (connection errors,
  timeouts, \<^verbatim>\<open>HTTPError\<close>); any other exception is not caught by \<^verbatim>\<open>fetch_html\<close>.
  \<^verbatim>\<open>raise_for_status\<close> raises \<^verbatim>\<open>HTTPError\<close> for a status from 400 to 599. The events
  are the requests sent and the seconds slept, in order.
\<close>

record response =
  status_code :: nat
  response_text :: ustring

datatype event = Get ustring int | Sleep nat

definition raise_for_status :: "response \<Rightarrow> py_error + response" where
  "raise_for_status r =
     (if 400 \<le> status_code r \<and> status_code r < 600 then Inl RequestException else Inr r)"

fun fetch_html_loop ::
  "(ustring \<Rightarrow> int \<Rightarrow> nat \<Rightarrow> py_error + response) \<Rightarrow> ustring \<Rightarrow> int \<Rightarrow> int \<Rightarrow> nat list
     \<Rightarrow> event list \<Rightarrow> (py_error + ustring option) \<times> event list" where
  "fetch_html_loop get url timeout retry_attempts [] events = (Inr None, events)"
| "fetch_html_loop get url timeout retry_attempts (attempt # rest) events =
     (case (case get url timeout attempt of
              Inl e \<Rightarrow> Inl e
            | Inr r \<Rightarrow> raise_for_status r) of
        Inr r \<Rightarrow> (Inr (Some (response_text r)), events @ [Get url timeout])
      | Inl e \<Rightarrow>
          if e = RequestException then
            (if int attempt < retry_attempts - 1
             then fetch_html_loop get url timeout retry_attempts rest
                    (events @ [Get url timeout, Sleep 2])
             else (Inr None, events @ [Get url timeout]))
          else (Inl e, events @ [Get url timeout]))"

text \<open>\<^verbatim>\<open>range(retry_attempts)\<close> is empty for a count below 1: the loop body never runs and the function returns \<^verbatim>\<open>None\<close>.\<close>

definition fetch_html ::
  "(ustring \<Rightarrow> int \<Rightarrow> nat \<Rightarrow> py_error + response) \<Rightarrow> ustring \<Rightarrow> int \<Rightarrow> int
     \<Rightarrow> (py_error + ustring option) \<times> event list" where
  "fetch_html get url timeout retry_attempts =
     fetch_html_loop get url timeout retry_attempts [0..<nat retry_attempts] []"

text \<open>
  An attempt fails at the transport level when the request raises a
  \<open>RequestException\<close> or the response has an error status. \<open>retry_events n\<close> are the
  events of \<open>n\<close> failed attempts: each request but the last followed by a sleep of
  2 seconds.
\<close>

definition request_fails ::
  "(ustring \<Rightarrow> int \<Rightarrow> nat \<Rightarrow> py_error + response) \<Rightarrow> ustring \<Rightarrow> int \<Rightarrow> nat \<Rightarrow> bool" where
  "request_fails get url timeout attempt \<longleftrightarrow>
     (case get url timeout attempt of
        Inl e \<Rightarrow> e = RequestException
      | Inr r \<Rightarrow> 400 \<le> status_code r \<and> status_code r < 600)"

fun retry_events :: "ustring \<Rightarrow> int \<Rightarrow> nat \<Rightarrow> event list" where
  "retry_events url timeout 0 = []"
| "retry_events url timeout (Suc 0) = [Get url timeout]"
| "retry_events url timeout (Suc (Suc n)) =
     Get url timeout # Sleep 2 # retry_events url timeout (Suc n)"

fun is_get :: "event \<Rightarrow> bool" where
  "is_get (Get url timeout) = True"
| "is_get (Sleep seconds) = False"

section \<open>parser.py: clean_price\<close>






section \<open>saver.py\<close>








subsection \<open>Sample files\<close>





section \<open>Properties\<close>

subsection \<open>The extraction loop\<close>

lemma key_neq: "ustr ''Title'' \<noteq> ustr ''Price''" "ustr ''Price'' \<noteq> ustr ''Title''"
  by (simp_all add: ustr_def)

lemma parse_book_has_h3:
  "has_h3 book \<Longrightarrow>
     parse_book book =
       Inr ((case title_link book of
               Some a \<Rightarrow> [(ustr ''Title'', strip (tag_get a (ustr ''title'') []))]
             | None \<Rightarrow> [])
            @ (case price_tag book of
                 Some p \<Rightarrow> [(ustr ''Price'', strip (get_text p))]
               | None \<Rightarrow> []))"
  by (auto simp: has_h3_def parse_book_def title_link_def price_tag_def Let_def key_neq
           split: option.splits)

lemma parse_book_no_h3: "\<not> has_h3 book \<Longrightarrow> parse_book book = Inl AttributeError"
  by (simp add: has_h3_def parse_book_def)

lemma parse_books_loop_step:
  "has_h3 book \<Longrightarrow>
     parse_books_loop (book # rest) books =
       parse_books_loop rest (books @ (case book_record book of Some r \<Rightarrow> [r] | None \<Rightarrow> []))"
  by (auto simp: parse_book_has_h3 book_record_def dict_has_def key_neq split: option.splits)

lemma parse_books_loop_ok:
  "\<forall>b \<in> set cs. has_h3 b \<Longrightarrow>
     parse_books_loop cs acc = Inr (acc @ List.map_filter book_record cs)"
proof (induction cs arbitrary: acc)
  case Nil
  then show ?case by (simp add: List.map_filter_simps)
next
  case (Cons book rest)
  then have h: "has_h3 book" and r: "\<forall>b \<in> set rest. has_h3 b" by simp_all
  show ?case
    using Cons.IH [OF r]
    by (simp only: parse_books_loop_step [OF h])
       (simp add: List.map_filter_simps split: option.splits)
qed

lemma parse_books_loop_Inr_has_h3:
  "parse_books_loop cs acc = Inr books \<Longrightarrow> \<forall>b \<in> set cs. has_h3 b"
proof (induction cs arbitrary: acc)
  case Nil
  then show ?case by simp
next
  case (Cons book rest)
  show ?case
  proof (cases "has_h3 book")
    case True
    with Cons show ?thesis
      by (auto simp only: parse_books_loop_step [OF True] set_simps)
  next
    case False
    with Cons.prems show ?thesis by (simp add: parse_book_no_h3)
  qed
qed

lemma book_record_keys: "book_record book = Some r \<Longrightarrow> map fst r = [ustr ''Title'', ustr ''Price'']"
  by (auto simp: book_record_def split: option.splits)

lemma set_map_filter: "set (List.map_filter f xs) = {y. \<exists>x \<in> set xs. f x = Some y}"
  by (induction xs) (auto simp: List.map_filter_simps split: option.splits)

lemma length_map_filter: "length (List.map_filter f xs) = length (filter (\<lambda>x. f x \<noteq> None) xs)"
  by (induction xs) (auto simp: List.map_filter_simps split: option.splits)

lemma well_formed_record: "well_formed book \<Longrightarrow> book_record book \<noteq> None"
  by (auto simp: well_formed_def book_record_def split: option.splits)

lemma tag_get_absent: "\<not> has_attr a key \<Longrightarrow> tag_get a key dflt = dflt"
  by (cases a) auto

lemma parse_books_records:
  assumes "parse_books_from_html BeautifulSoup html_content = Inr books"
    and "html_content \<noteq> []"
  shows "books = List.map_filter book_record (containers (BeautifulSoup html_content))"
proof -
  from assms have
    run: "parse_books_loop (containers (BeautifulSoup html_content)) [] = Inr books"
    by (simp add: parse_books_from_html_def containers_def)
  from parse_books_loop_ok [OF parse_books_loop_Inr_has_h3 [OF run], of "[]"] run
  show ?thesis by simp
qed

subsection \<open>C1: records in document order\<close>

lemma shelf_markup_nonempty: "shelf_markup \<noteq> []"
  by (simp add: shelf_markup_def ustr_def)

lemma shelf_containers_h3:
  "\<forall>book \<in> set (containers ((\<lambda>_. shelf_soup) shelf_markup)). has_h3 book"
  by (simp add: containers_def shelf_soup_def find_all_def has_h3_def find_tag_def ustr_def)

lemma shelf_records:
  "List.map_filter book_record (containers shelf_soup)
     = [[(ustr ''Title'', ustr ''A''), (ustr ''Price'', [163, 49])],
        [(ustr ''Title'', ustr ''B''), (ustr ''Price'', [163, 50])]]"
  by (simp add: containers_def shelf_soup_def find_all_def find_tag_def book_record_def
        title_link_def price_tag_def List.map_filter_simps strip_def py_isspace_def ustr_def)

lemma shelf_records_well_formed:
  "\<forall>book \<in> set (containers ((\<lambda>_. shelf_soup) shelf_markup)).
     book_record book \<noteq> None \<longrightarrow> well_formed book"
  by (simp add: containers_def shelf_soup_def find_all_def find_tag_def book_record_def
        well_formed_def title_link_def price_tag_def ustr_def)

lemma untitled_parse:
  "parse_books_from_html (\<lambda>_. untitled_soup) untitled_markup
     = Inr [[(ustr ''Title'', []), (ustr ''Price'', [163, 53])]]"
  by (simp add: parse_books_from_html_def untitled_markup_def untitled_soup_def find_all_def
        parse_book_def find_tag_def dict_has_def strip_def py_isspace_def ustr_def)

lemma untitled_not_well_formed: "filter well_formed (containers untitled_soup) = []"
  by (simp add: untitled_soup_def find_all_def find_tag_def containers_def
        well_formed_def title_link_def price_tag_def ustr_def)

text \<open>
  C1, as amended. When every \<^verbatim>\<open>product_pod\<close> container of the parsed markup has an
  \<^verbatim>\<open>h3\<close> element, \<^verbatim>\<open>parse_books_from_html\<close> returns, in document order, the record
  of each container that has a link in its first \<^verbatim>\<open>h3\<close> and a price element, and
  nothing for the other containers, which therefore do not shift the order. When the
  containers that yield a record are all well-formed (their link carries a title
  attribute), the number of records is the number N of well-formed containers.
\<close>

theorem parse_books_document_order:
  assumes "html_content \<noteq> []"
    and "\<forall>book \<in> set (containers (BeautifulSoup html_content)). has_h3 book"
  shows "parse_books_from_html BeautifulSoup html_content
           = Inr (List.map_filter book_record (containers (BeautifulSoup html_content)))
         \<and> ((\<forall>book \<in> set (containers (BeautifulSoup html_content)).
                book_record book \<noteq> None \<longrightarrow> well_formed book)
              \<longrightarrow> length (List.map_filter book_record (containers (BeautifulSoup html_content)))
                    = length (filter well_formed (containers (BeautifulSoup html_content))))"
proof (intro conjI impI)
  show "parse_books_from_html BeautifulSoup html_content
          = Inr (List.map_filter book_record (containers (BeautifulSoup html_content)))"
    using assms parse_books_loop_ok [of "containers (BeautifulSoup html_content)" "[]"]
    by (simp add: parse_books_from_html_def containers_def)
next
  assume "\<forall>book \<in> set (containers (BeautifulSoup html_content)).
            book_record book \<noteq> None \<longrightarrow> well_formed book"
  then have "filter (\<lambda>x. book_record x \<noteq> None) (containers (BeautifulSoup html_content))
               = filter well_formed (containers (BeautifulSoup html_content))"
    by (intro filter_cong) (auto dest: well_formed_record)
  then show "length (List.map_filter book_record (containers (BeautifulSoup html_content)))
               = length (filter well_formed (containers (BeautifulSoup html_content)))"
    by (simp add: length_map_filter)
qed

theorem parse_books_document_order_witness:
  "parse_books_from_html (\<lambda>_. shelf_soup) shelf_markup
     = Inr [[(ustr ''Title'', ustr ''A''), (ustr ''Price'', [163, 49])],
            [(ustr ''Title'', ustr ''B''), (ustr ''Price'', [163, 50])]]
   \<and> length (filter well_formed (containers shelf_soup)) = 2"
proof -
  note run = parse_books_document_order [OF shelf_markup_nonempty shelf_containers_h3]
  from run have "parse_books_from_html (\<lambda>_. shelf_soup) shelf_markup
      = Inr (List.map_filter book_record (containers shelf_soup))"
    by simp
  moreover from run shelf_records_well_formed
  have "length (List.map_filter book_record (containers shelf_soup))
      = length (filter well_formed (containers shelf_soup))"
    by simp
  ultimately show ?thesis by (simp add: shelf_records)
qed

text \<open>
  C1 as stated fails on \<open>untitled\<close>: its one container has a link without a title
  attribute, so the markup has no well-formed container, and yet the call returns one
  record, with the empty string as title.
\<close>

theorem untitled_link_counterexample:
  "length (filter well_formed (containers untitled_soup)) = 0
   \<and> parse_books_from_html (\<lambda>_. untitled_soup) untitled_markup
       = Inr [[(ustr ''Title'', []), (ustr ''Price'', [163, 53])]]"
  by (simp add: untitled_parse untitled_not_well_formed)

subsection \<open>C9: extraction misses\<close>

text \<open>
  C9. On \<open>headless\<close>, whose container has a link and a price element but no \<^verbatim>\<open>h3\<close>,
  both \<^verbatim>\<open>parse_books_from_html\<close> and \<^verbatim>\<open>get_book_urls\<close> raise \<^verbatim>\<open>AttributeError\<close>,
  where the claim promises a result without the record.
\<close>

theorem missing_h3_raises:
  "parse_books_from_html (\<lambda>_. headless_soup) headless_markup = Inl AttributeError
   \<and> get_book_urls (\<lambda>_. headless_soup) headless_markup = Inl AttributeError"
  by (simp add: parse_books_from_html_def get_book_urls_def headless_markup_def headless_soup_def
        find_all_def parse_book_def find_tag_def ustr_def)

subsection \<open>C10: the keys of a record, and the empty title\<close>

text \<open>
  C10. Every record \<^verbatim>\<open>parse_books_from_html\<close> returns has exactly the keys
  \<^verbatim>\<open>Title\<close> and \<^verbatim>\<open>Price\<close>; and a container whose link has no \<^verbatim>\<open>title\<close> attribute
  (and which has a price element) contributes a record whose title is the empty string.
\<close>

theorem record_keys_and_empty_title:
  assumes "parse_books_from_html BeautifulSoup html_content = Inr books"
  shows "(\<forall>b \<in> set books. map fst b = [ustr ''Title'', ustr ''Price''])
         \<and> (\<forall>book \<in> set (containers (BeautifulSoup html_content)). \<forall>a p.
               html_content \<noteq> [] \<and> title_link book = Some a \<and> \<not> has_attr a (ustr ''title'')
               \<and> price_tag book = Some p
               \<longrightarrow> [(ustr ''Title'', []), (ustr ''Price'', strip (get_text p))] \<in> set books)"
proof (cases "html_content = []")
  case True
  with assms show ?thesis by (simp add: parse_books_from_html_def)
next
  case False
  note recs = parse_books_records [OF assms False]
  have keys: "\<forall>b \<in> set books. map fst b = [ustr ''Title'', ustr ''Price'']"
    unfolding recs by (auto simp: set_map_filter dest: book_record_keys)
  have "[(ustr ''Title'', []), (ustr ''Price'', strip (get_text p))] \<in> set books"
    if "book \<in> set (containers (BeautifulSoup html_content))" "title_link book = Some a"
       "\<not> has_attr a (ustr ''title'')" "price_tag book = Some p" for book a p
  proof -
    from that(2-4) have "book_record book
        = Some [(ustr ''Title'', []), (ustr ''Price'', strip (get_text p))]"
      by (simp add: book_record_def tag_get_absent strip_def)
    with that(1) show ?thesis unfolding recs by (auto simp: set_map_filter)
  qed
  with keys show ?thesis by blast
qed

theorem record_keys_and_empty_title_witness:
  "parse_books_from_html (\<lambda>_. untitled_soup) untitled_markup
     = Inr [[(ustr ''Title'', []), (ustr ''Price'', [163, 53])]]
   \<and> map fst [(ustr ''Title'', []), (ustr ''Price'', [163, 53 :: nat])]
       = [ustr ''Title'', ustr ''Price'']"
  using record_keys_and_empty_title [OF untitled_parse] untitled_parse by simp

subsection \<open>Strings and the end-of-catalog test\<close>

lemma startswith_iff: "startswith s p \<longleftrightarrow> (\<exists>suf. s = p @ suf)"
  by (induction s p rule: startswith.induct) auto

lemma py_in_iff: "py_in x s \<longleftrightarrow> (\<exists>pre suf. s = pre @ x @ suf)"
proof (induction s)
  case Nil
  then show ?case by auto
next
  case (Cons c cs)
  show ?case
  proof
    assume "py_in x (c # cs)"
    then consider "startswith (c # cs) x" | "py_in x cs" by auto
    then show "\<exists>pre suf. c # cs = pre @ x @ suf"
    proof cases
      case 1
      then obtain suf where "c # cs = x @ suf" by (auto simp: startswith_iff)
      then have "c # cs = [] @ x @ suf" by simp
      then show ?thesis by blast
    next
      case 2
      with Cons obtain pre suf where "cs = pre @ x @ suf" by auto
      then have "c # cs = (c # pre) @ x @ suf" by simp
      then show ?thesis by blast
    qed
  next
    assume "\<exists>pre suf. c # cs = pre @ x @ suf"
    then obtain pre suf where eq: "c # cs = pre @ x @ suf" by blast
    show "py_in x (c # cs)"
    proof (cases pre)
      case Nil
      with eq have "startswith (c # cs) x" by (auto simp: startswith_iff)
      then show ?thesis by simp
    next
      case (Cons d pre')
      with eq have "cs = pre' @ x @ suf" by simp
      with Cons.IH have "py_in x cs" by blast
      then show ?thesis by simp
    qed
  qed
qed

lemma split_scan_first:
  "sep \<noteq> [] \<Longrightarrow>
     split_scan sep piece s =
       (piece @ before_first sep s)
       # (if py_in sep s then split_scan sep [] (after_first sep s) else [])"
  by (induction sep piece s rule: split_scan.induct) auto

lemma subscript_split_0:
  "sep \<noteq> [] \<Longrightarrow> subscript (split_scan sep [] s) 0 = Inr (before_first sep s)"
  by (subst split_scan_first) (auto simp: subscript_def)

lemma subscript_split_1:
  assumes "sep \<noteq> []" "py_in sep s"
  shows "subscript (split_scan sep [] s) 1 = Inr (before_first sep (after_first sep s))"
proof -
  have "split_scan sep [] s = before_first sep s # split_scan sep [] (after_first sep s)"
    using assms by (subst split_scan_first) auto
  also have "split_scan sep [] (after_first sep s)
      = before_first sep (after_first sep s)
        # (if py_in sep (after_first sep s)
           then split_scan sep [] (after_first sep (after_first sep s)) else [])"
    using assms(1) by (subst split_scan_first) auto
  finally show ?thesis by (simp add: subscript_def)
qed

lemma any_indicator_iff: "any_indicator inds s \<longleftrightarrow> (\<exists>i \<in> set inds. py_in i s)"
  by (induction inds) auto

lemma title_sep_nonempty: "ustr ''<title>'' \<noteq> []" "ustr ''</title>'' \<noteq> []"
  by (simp_all add: ustr_def)

lemma is_page_not_found_value:
  "is_page_not_found lower markup =
     Inr (case markup of
            None \<Rightarrow> True
          | Some html \<Rightarrow>
              html = []
              \<or> (\<exists>phrase \<in> set not_found_indicators. py_in phrase (lower html))
              \<or> length (strip html) < 500
              \<or> (py_in (ustr ''<title>'') (lower html)
                  \<and> py_in (ustr ''404'') (title_text (lower html))))"
proof (cases markup)
  case None
  then show ?thesis by (simp add: is_page_not_found_def)
next
  case (Some html)
  show ?thesis
  proof (cases "py_in (ustr ''<title>'') (lower html)")
    case True
    have "py_split (lower html) (ustr ''<title>'') = Inr (split_scan (ustr ''<title>'') [] (lower html))"
      by (simp add: py_split_def title_sep_nonempty)
    moreover note subscript_split_1 [OF title_sep_nonempty(1) True]
    moreover have "py_split s (ustr ''</title>'') = Inr (split_scan (ustr ''</title>'') [] s)" for s
      by (simp add: py_split_def title_sep_nonempty)
    moreover note subscript_split_0 [OF title_sep_nonempty(2)]
    ultimately show ?thesis
      using Some True
      by (simp add: is_page_not_found_def Let_def any_indicator_iff title_text_def)
  next
    case False
    with Some show ?thesis
      by (simp add: is_page_not_found_def Let_def any_indicator_iff)
  qed
qed

lemma py_in_replicate: "py_in x (replicate n c) \<longleftrightarrow> (\<forall>d \<in> set x. d = c) \<and> length x \<le> n"
proof
  assume "py_in x (replicate n c)"
  then obtain pre suf where eq: "replicate n c = pre @ x @ suf" by (auto simp: py_in_iff)
  then have "set (replicate n c) = set pre \<union> set x \<union> set suf" by (metis set_append Un_assoc)
  then have "set x \<subseteq> set (replicate n c)" by blast
  moreover from eq have "length (replicate n c) = length (pre @ x @ suf)" by simp
  ultimately show "(\<forall>d \<in> set x. d = c) \<and> length x \<le> n" by auto
next
  assume a: "(\<forall>d \<in> set x. d = c) \<and> length x \<le> n"
  then have "x = replicate (length x) c" by (simp add: replicate_length_same)
  with a have "replicate n c = [] @ x @ replicate (n - length x) c"
    by (metis append_Nil le_add_diff_inverse replicate_add)
  then show "py_in x (replicate n c)" unfolding py_in_iff by blast
qed

lemma startswith_replicate:
  "startswith (replicate n c) (p # ps) \<longleftrightarrow> 0 < n \<and> c = p \<and> startswith (replicate (n - 1) c) ps"
  by (cases n) auto

lemma strip_id: "s \<noteq> [] \<Longrightarrow> \<not> py_isspace (hd s) \<Longrightarrow> \<not> py_isspace (last s) \<Longrightarrow> strip s = s"
proof -
  assume a: "s \<noteq> []" "\<not> py_isspace (hd s)" "\<not> py_isspace (last s)"
  then have 1: "dropWhile py_isspace s = s" by (cases s) auto
  from a have "rev s = last s # rev (butlast s)"
    by (metis append_butlast_last_id rev.simps(2) rev_append rev_rev_ident append_Nil rev_singleton_conv append_Cons)
  moreover have "dropWhile py_isspace (last s # rev (butlast s)) = last s # rev (butlast s)"
    using a by simp
  ultimately have 2: "dropWhile py_isspace (rev s) = rev s" by (simp only:)
  show ?thesis by (simp add: strip_def 1 2)
qed




subsection \<open>The sample pages\<close>

lemma page_one_strip: "strip page_one = page_one"
  by (rule strip_id) (simp_all add: page_one_def ustr_def py_isspace_def)

lemma page_one_length: "500 \<le> length page_one"
  by (simp add: page_one_def)

lemma page_one_classified: "is_page_not_found ascii_lower (Some page_one) = Inr False"
  unfolding is_page_not_found_value
  apply (simp add: page_one_strip page_one_length)
  apply (simp add: page_one_def ascii_lower_def not_found_indicators_def ustr_def py_in_replicate startswith_replicate)
  done

lemma page_one_parse:
  "parse_books_from_html sample_soup page_one
     = Inr [[(ustr ''Title'', ustr ''A''), (ustr ''Price'', [163, 49])]]"
  apply (simp add: parse_books_from_html_def sample_soup_def)
  by (simp add: page_one_def soup_one_def find_all_def
        parse_book_def find_tag_def dict_has_def strip_def py_isspace_def ustr_def)

lemma page_two_strip: "strip page_two = page_two"
  by (rule strip_id) (simp_all add: page_two_def ustr_def py_isspace_def)

lemma page_two_length: "500 \<le> length page_two"
  by (simp add: page_two_def)

lemma page_two_classified: "is_page_not_found ascii_lower (Some page_two) = Inr False"
  unfolding is_page_not_found_value
  apply (simp add: page_two_strip page_two_length)
  apply (simp add: page_two_def ascii_lower_def not_found_indicators_def ustr_def py_in_replicate startswith_replicate)
  done

lemma page_two_neq: "page_two \<noteq> page_one"
  by (simp add: page_one_def page_two_def ustr_def)

lemma page_two_parse:
  "parse_books_from_html sample_soup page_two
     = Inr [[(ustr ''Title'', ustr ''B''), (ustr ''Price'', [163, 50])]]"
  apply (simp add: parse_books_from_html_def sample_soup_def page_two_neq)
  by (simp add: page_two_def soup_two_def find_all_def
        parse_book_def find_tag_def dict_has_def strip_def py_isspace_def ustr_def)

lemma stub_classified: "is_page_not_found ascii_lower (Some stub) = Inr True"
  unfolding is_page_not_found_value
  by (simp add: stub_def ascii_lower_def not_found_indicators_def ustr_def)

lemma pages_nonempty: "page_one \<noteq> []" "page_two \<noteq> []" "stub \<noteq> []"
  by (simp_all add: page_one_def page_two_def stub_def ustr_def)

subsection \<open>C2: the end-of-catalog test\<close>

lemma lost_classified: "is_page_not_found ascii_lower (Some lost_markup) = Inr True"
  unfolding is_page_not_found_value
  by (simp add: lost_markup_def ascii_lower_def not_found_indicators_def ustr_def)

lemma lost_parse:
  "parse_books_from_html (\<lambda>_. lost_soup) lost_markup
     = Inr [[(ustr ''Title'', ustr ''Lost''), (ustr ''Price'', [163, 53])]]"
  by (simp add: parse_books_from_html_def lost_markup_def lost_soup_def find_all_def
        parse_book_def find_tag_def dict_has_def strip_def py_isspace_def ustr_def)





subsection \<open>The crawl loops\<close>

lemma scrape_all_loop_not_found:
  "not_found_page lower fetch s \<Longrightarrow>
     scrape_all_loop lower bs fetch s acc fetched = Some (Inr acc, fetched @ [s])"
  by (subst scrape_all_loop.simps) (auto simp: not_found_page_def split: option.splits)

lemma scrape_all_loop_catalog_page:
  "catalog_page lower bs fetch s \<Longrightarrow>
     scrape_all_loop lower bs fetch s acc fetched =
       scrape_all_loop lower bs fetch (s + 1) (acc @ page_books bs fetch s) (fetched @ [s])"
  by (subst scrape_all_loop.simps)
     (auto simp: catalog_page_def page_books_def scrape_single_page_def
           split: option.splits sum.splits)

lemma scrape_all_loop_catalog:
  "\<forall>p \<in> {s..s + int K - 1}. catalog_page lower bs fetch p \<Longrightarrow>
   not_found_page lower fetch (s + int K) \<Longrightarrow>
   scrape_all_loop lower bs fetch s acc fetched =
     Some (Inr (acc @ concat (map (page_books bs fetch) [s..s + int K - 1])),
           fetched @ [s..s + int K])"
proof (induction K arbitrary: s acc fetched)
  case 0
  then show ?case by (simp add: scrape_all_loop_not_found)
next
  case (Suc K)
  from Suc.prems(1) have here: "catalog_page lower bs fetch s" by simp
  from Suc.prems(1) have rest: "\<forall>p \<in> {s + 1..s + 1 + int K - 1}. catalog_page lower bs fetch p"
    by simp
  from Suc.prems(2) have stop: "not_found_page lower fetch (s + 1 + int K)"
    by (simp add: add.commute add.left_commute)
  have r1: "[s..s + int (Suc K) - 1] = s # [s + 1..s + 1 + int K - 1]"
    by (subst upto_rec1) simp_all
  have r2: "[s..s + int (Suc K)] = s # [s + 1..s + 1 + int K]"
    by (subst upto_rec1) (simp_all add: add.commute add.left_commute)
  show ?case
    by (simp only: scrape_all_loop_catalog_page [OF here] Suc.IH [OF rest stop] r1 r2) simp
qed

subsection \<open>C3: the exhaustive crawl\<close>

lemma sample_catalog_pages:
  "\<forall>p \<in> {1..int 2}. catalog_page ascii_lower sample_soup sample_catalog p"
proof -
  have "catalog_page ascii_lower sample_soup sample_catalog 1"
    by (simp add: catalog_page_def sample_catalog_def pages_nonempty page_one_classified
          page_one_parse)
  moreover have "catalog_page ascii_lower sample_soup sample_catalog 2"
    by (simp add: catalog_page_def sample_catalog_def pages_nonempty page_two_classified
          page_two_parse)
  moreover have "{1..int 2} = {1, 2}" by auto
  ultimately show ?thesis by simp
qed

lemma sample_catalog_end: "not_found_page ascii_lower sample_catalog (int 2 + 1)"
  by (simp add: not_found_page_def sample_catalog_def pages_nonempty stub_classified)

lemma sample_page_books:
  "page_books sample_soup sample_catalog 1
     = [[(ustr ''Title'', ustr ''A''), (ustr ''Price'', [163, 49])]]"
  "page_books sample_soup sample_catalog 2
     = [[(ustr ''Title'', ustr ''B''), (ustr ''Price'', [163, 50])]]"
  by (simp_all add: page_books_def scrape_single_page_def sample_catalog_def pages_nonempty
        page_one_parse page_two_parse)

lemma upto_1_2: "[1..2::int] = [1, 2]" "[1..3::int] = [1, 2, 3]"
  by (simp_all add: upto_rec1)

text \<open>
  C3. Over a catalog whose pages 1 to K are catalog pages and whose page K + 1 is a
  "not found" page, \<^verbatim>\<open>scrape_all_pages\<close> from page 1 returns: its result is the records
  of pages 1 to K, concatenated in page order, and it fetches the pages 1 to K + 1, one
  attempt each, K + 1 in all, the last being the "not found" page.
\<close>

theorem scrape_all_pages_catalog:
  assumes "\<forall>p \<in> {1..int K}. catalog_page lower BeautifulSoup fetch_books_page p"
    and "not_found_page lower fetch_books_page (int K + 1)"
  shows "scrape_all_pages lower BeautifulSoup fetch_books_page 1
           = Some (Inr (concat (map (page_books BeautifulSoup fetch_books_page) [1..int K])),
                   [1..int K + 1])
         \<and> length [1..int K + 1] = K + 1"
  using scrape_all_loop_catalog [of 1 K lower BeautifulSoup fetch_books_page "[]" "[]"] assms
  by (simp add: scrape_all_pages_def add.commute)

theorem scrape_all_pages_catalog_witness:
  "scrape_all_pages ascii_lower sample_soup sample_catalog 1
     = Some (Inr [[(ustr ''Title'', ustr ''A''), (ustr ''Price'', [163, 49])],
                  [(ustr ''Title'', ustr ''B''), (ustr ''Price'', [163, 50])]],
             [1, 2, 3])"
  using scrape_all_pages_catalog [OF sample_catalog_pages sample_catalog_end]
  by (simp add: sample_page_books upto_1_2)

subsection \<open>C5: the bounded crawl\<close>

lemma scrape_pages_loop_fetched:
  "set (snd (scrape_pages_loop bs fetch pages acc fetched)) \<subseteq> set fetched \<union> set pages"
proof (induction pages arbitrary: acc fetched)
  case Nil
  then show ?case by simp
next
  case (Cons page rest)
  show ?case
  proof (cases "scrape_single_page bs fetch page")
    case (Inl e)
    then show ?thesis by auto
  next
    case (Inr found)
    show ?thesis
    proof (cases "found = []")
      case True
      with Inr show ?thesis by auto
    next
      case False
      with Inr Cons.IH [of "acc @ found" "fetched @ [page]"] show ?thesis by auto
    qed
  qed
qed

lemma scrape_pages_loop_all:
  "\<forall>p \<in> set pages. page_yields bs fetch p \<Longrightarrow>
     scrape_pages_loop bs fetch pages acc fetched
       = (Inr (acc @ concat (map (page_books bs fetch) pages)), fetched @ pages)"
  by (induction pages arbitrary: acc fetched)
     (auto simp: page_yields_def page_books_def split: sum.splits)

lemma scrape_pages_loop_early:
  "scrape_pages_loop bs fetch pages acc fetched = (Inr books, tr) \<Longrightarrow>
   tr \<noteq> fetched @ pages \<Longrightarrow>
   tr \<noteq> [] \<and> scrape_single_page bs fetch (last tr) = Inr []"
proof (induction pages arbitrary: acc fetched)
  case Nil
  then show ?case by simp
next
  case (Cons page rest)
  show ?case
  proof (cases "scrape_single_page bs fetch page")
    case (Inl e)
    with Cons.prems show ?thesis by simp
  next
    case (Inr found)
    show ?thesis
    proof (cases "found = []")
      case True
      with Inr Cons.prems show ?thesis by auto
    next
      case False
      with Inr Cons.prems have
        "scrape_pages_loop bs fetch rest (acc @ found) (fetched @ [page]) = (Inr books, tr)"
        "tr \<noteq> (fetched @ [page]) @ rest"
        by simp_all
      then show ?thesis by (rule Cons.IH)
    qed
  qed
qed

lemma lost_page_yields:
  "\<forall>p \<in> {1..1 + 2 - 1}. page_yields (\<lambda>_. lost_soup) (\<lambda>_. Some lost_markup) p"
  by (simp add: page_yields_def scrape_single_page_def lost_parse)
     (simp add: lost_markup_def)

lemma lost_page_books:
  "page_books (\<lambda>_. lost_soup) (\<lambda>_. Some lost_markup) p
     = [[(ustr ''Title'', ustr ''Lost''), (ustr ''Price'', [163, 53])]]"
  by (simp add: page_books_def scrape_single_page_def lost_parse) (simp add: lost_markup_def)

text \<open>
  C5. \<^verbatim>\<open>scrape_multiple_pages\<close> only fetches pages from \<open>start_page\<close> to
  \<open>start_page + num_pages - 1\<close>. When every page of that range yields at least one
  record it fetches them all and returns their records in page order, whatever
  \<^verbatim>\<open>is_page_not_found\<close> would say of the pages, which it never asks. When it returns
  having fetched fewer, the last page it fetched gave no record: the fetch failed or
  the page had zero records.
\<close>

theorem scrape_multiple_pages_bounded:
  "(\<forall>p \<in> set (snd (scrape_multiple_pages BeautifulSoup fetch_books_page start_page num_pages)).
      start_page \<le> p \<and> p \<le> start_page + num_pages - 1)
   \<and> ((\<forall>p \<in> {start_page..start_page + num_pages - 1}. page_yields BeautifulSoup fetch_books_page p)
       \<longrightarrow> scrape_multiple_pages BeautifulSoup fetch_books_page start_page num_pages
             = (Inr (concat (map (page_books BeautifulSoup fetch_books_page)
                               [start_page..start_page + num_pages - 1])),
                [start_page..start_page + num_pages - 1]))
   \<and> (\<forall>books fetched.
         scrape_multiple_pages BeautifulSoup fetch_books_page start_page num_pages = (Inr books, fetched)
         \<and> fetched \<noteq> [start_page..start_page + num_pages - 1]
         \<longrightarrow> fetched \<noteq> []
             \<and> scrape_single_page BeautifulSoup fetch_books_page (last fetched) = Inr [])"
proof (intro conjI)
  show "\<forall>p \<in> set (snd (scrape_multiple_pages BeautifulSoup fetch_books_page start_page num_pages)).
      start_page \<le> p \<and> p \<le> start_page + num_pages - 1"
    using scrape_pages_loop_fetched
      [of BeautifulSoup fetch_books_page "[start_page..start_page + num_pages - 1]" "[]" "[]"]
    by (auto simp: scrape_multiple_pages_def)
next
  show "(\<forall>p \<in> {start_page..start_page + num_pages - 1}. page_yields BeautifulSoup fetch_books_page p)
       \<longrightarrow> scrape_multiple_pages BeautifulSoup fetch_books_page start_page num_pages
             = (Inr (concat (map (page_books BeautifulSoup fetch_books_page)
                               [start_page..start_page + num_pages - 1])),
                [start_page..start_page + num_pages - 1])"
    using scrape_pages_loop_all
      [of "[start_page..start_page + num_pages - 1]" BeautifulSoup fetch_books_page "[]" "[]"]
    by (simp add: scrape_multiple_pages_def)
next
  show "\<forall>books fetched.
         scrape_multiple_pages BeautifulSoup fetch_books_page start_page num_pages = (Inr books, fetched)
         \<and> fetched \<noteq> [start_page..start_page + num_pages - 1]
         \<longrightarrow> fetched \<noteq> []
             \<and> scrape_single_page BeautifulSoup fetch_books_page (last fetched) = Inr []"
    using scrape_pages_loop_early
      [of BeautifulSoup fetch_books_page "[start_page..start_page + num_pages - 1]" "[]" "[]"]
    by (simp add: scrape_multiple_pages_def)
qed

theorem scrape_multiple_pages_bounded_witness:
  "scrape_multiple_pages (\<lambda>_. lost_soup) (\<lambda>_. Some lost_markup) 1 2
     = (Inr [[(ustr ''Title'', ustr ''Lost''), (ustr ''Price'', [163, 53])],
             [(ustr ''Title'', ustr ''Lost''), (ustr ''Price'', [163, 53])]],
        [1, 2])
   \<and> is_page_not_found ascii_lower (Some lost_markup) = Inr True"
proof -
  from scrape_multiple_pages_bounded [of "\<lambda>_. lost_soup" "\<lambda>_. Some lost_markup" 1 2]
  have "(\<forall>p \<in> {1..1 + 2 - 1}. page_yields (\<lambda>_. lost_soup) (\<lambda>_. Some lost_markup) p)
       \<longrightarrow> scrape_multiple_pages (\<lambda>_. lost_soup) (\<lambda>_. Some lost_markup) 1 2
             = (Inr (concat (map (page_books (\<lambda>_. lost_soup) (\<lambda>_. Some lost_markup))
                               [1..1 + 2 - 1])),
                [1..1 + 2 - 1])"
    by blast
  with lost_page_yields have
    "scrape_multiple_pages (\<lambda>_. lost_soup) (\<lambda>_. Some lost_markup) 1 2
             = (Inr (concat (map (page_books (\<lambda>_. lost_soup) (\<lambda>_. Some lost_markup))
                               [1..1 + 2 - 1])),
                [1..1 + 2 - 1])"
    by blast
  then show ?thesis
    by (simp add: lost_page_books lost_classified upto_rec1)
qed

subsection \<open>C7: retries of fetch_html\<close>

lemma fetch_html_loop_fails:
  assumes "\<forall>attempt < n. request_fails get url timeout attempt"
    and "n = nat retry_attempts" and "k \<le> n"
  shows "fetch_html_loop get url timeout retry_attempts [k..<n] events
           = (Inr None, events @ retry_events url timeout (n - k))"
  using assms(3)
proof (induction "n - k" arbitrary: k events)
  case 0
  then show ?case by simp
next
  case (Suc m)
  then have kn: "k < n" and m: "m = n - Suc k" by simp_all
  from kn assms(1) have fails: "request_fails get url timeout k" by simp
  then have out: "(case get url timeout k of Inl e \<Rightarrow> Inl e | Inr r \<Rightarrow> raise_for_status r)
                    = Inl RequestException"
    by (auto simp: request_fails_def raise_for_status_def split: sum.splits)
  have list: "[k..<n] = k # [Suc k..<n]" using kn by (simp add: upt_conv_Cons)
  show ?case
  proof (cases m)
    case 0
    with m kn have last: "Suc k = n" by simp
    with assms(2) have "\<not> int k < retry_attempts - 1" by auto
    moreover from last have "n - k = Suc 0" by simp
    ultimately show ?thesis using out list last by simp
  next
    case (Suc m')
    with m kn have more: "Suc k < n" and diff: "n - k = Suc (Suc (n - Suc (Suc k)))" by simp_all
    with assms(2) have go: "int k < retry_attempts - 1" by auto
    from more have "Suc k \<le> n" by simp
    from Suc.hyps(1) [OF m this]
    have "fetch_html_loop get url timeout retry_attempts [Suc k..<n]
            (events @ [Get url timeout, Sleep 2])
          = (Inr None, (events @ [Get url timeout, Sleep 2]) @ retry_events url timeout (n - Suc k))"
      .
    moreover from more have "n - Suc k = Suc (n - Suc (Suc k))" by simp
    ultimately show ?thesis using out list go diff by simp
  qed
qed

lemma retry_events_count:
  "length (filter is_get (retry_events url timeout n)) = n"
  "length (filter (\<lambda>e. e = Sleep 2) (retry_events url timeout n)) = n - 1"
  by (induction url timeout n rule: retry_events.induct) simp_all

lemma always_fails: "\<forall>attempt < nat 3. request_fails (\<lambda>url timeout attempt. Inl RequestException)
     (ustr ''https://books.toscrape.com/'') 30 attempt"
  by (simp add: request_fails_def)

text \<open>
  C7. When every attempted request fails at the transport level, \<^verbatim>\<open>fetch_html\<close>
  returns \<^verbatim>\<open>None\<close> and raises nothing, after as many requests as \<open>retry_attempts\<close>
  (none when it is below 1), with a sleep of 2 seconds between consecutive attempts
  and none after the last.
\<close>

theorem fetch_html_exhausts_retries:
  assumes "\<forall>attempt < nat retry_attempts. request_fails get url timeout attempt"
  shows "fetch_html get url timeout retry_attempts
           = (Inr None, retry_events url timeout (nat retry_attempts))
         \<and> length (filter is_get (retry_events url timeout (nat retry_attempts)))
             = nat retry_attempts
         \<and> length (filter (\<lambda>e. e = Sleep 2) (retry_events url timeout (nat retry_attempts)))
             = nat retry_attempts - 1"
  using fetch_html_loop_fails [OF assms refl, of 0 "[]"]
  by (simp add: fetch_html_def retry_events_count)

theorem fetch_html_exhausts_retries_witness:
  "fetch_html (\<lambda>url timeout attempt. Inl RequestException) (ustr ''https://books.toscrape.com/'') 30 3
     = (Inr None,
        [Get (ustr ''https://books.toscrape.com/'') 30, Sleep 2,
         Get (ustr ''https://books.toscrape.com/'') 30, Sleep 2,
         Get (ustr ''https://books.toscrape.com/'') 30])"
  using fetch_html_exhausts_retries [OF always_fails]
  by (simp add: eval_nat_numeral)

subsection \<open>C4: clean_price\<close>







subsection \<open>C6: append and overwrite\<close>






subsection \<open>C8: the result of save_to_csv\<close>



end
